theory Spec2Isabelle
  imports Complex_Main "HOL-Library.Signed_Division"
begin

section \<open>The falling-item game engine\<close>

text \<open>
  A shallow embedding of the class \<open>GameEngine\<close> (the pooled "V4" engine) and of its
  \<open>Particle\<close> class, together with the pose handler of the older lane-discrete engine.

  Conventions of the model:
  \<^item> JavaScript numbers that only ever hold whole values (score, life, level, combo and the
    frame timers) are \<open>int\<close>; they stay far below \<open>2^53\<close>, where doubles are exact.
    Positions, speeds and particle attributes are \<open>real\<close>: the rounding of IEEE doubles
    is not modelled.
  \<^item> \<open>%\<close> is the truncating remainder \<open>smod\<close>; \<open>Math.floor\<close> of a quotient of whole
    numbers is \<open>div\<close>.
  \<^item> \<open>Math.random()\<close> reads the next element of a stream \<open>rand\<close>; \<open>drawn\<close> counts
    the elements consumed so far.
  \<^item> A listener field holds \<open>True\<close> when a function is installed. Each call the engine
    makes to a listener is appended to \<open>calls\<close>. Listeners are taken not to call back
    into the engine. Console output and the drawing commands sent to the 2D context are
    not modelled.
  \<^item> Reading a property of the \<open>null\<close> canvas throws a \<open>TypeError\<close>: the outcome
    \<open>Throws w\<close> carries the engine as it was when the exception left the method.
  \<^item> Strings are byte strings; labels are taken to be ASCII. An item's icon is held as
    the name of its code point.
  \<^item> \<open>ctx\<close> holds \<open>True\<close> when a 2D context is attached; \<open>has_2d\<close> says whether a
    canvas hands one out.
\<close>

subsection \<open>Data\<close>

record Particle =
  p_active :: bool
  p_x :: real
  p_y :: real
  p_vx :: real
  p_vy :: real
  p_life :: real
  p_color :: string
  p_size :: real

record Item =
  i_x :: real
  i_y :: real
  i_type :: string
  i_score :: int
  i_icon :: string
  i_color :: string
  i_speed :: real
  i_angle :: real

record ItemType =
  t_id :: string
  t_score :: int
  t_color :: string
  t_icon :: string

record Canvas =
  width :: real
  height :: real
  has_2d :: bool

datatype GameState = READY | PLAYING | GAME_OVER

datatype event =
    ScoreChange int int int int
  | GameEnd int int

datatype 'a outcome = Returns 'a | Throws 'a

record GameEngine =
  ctx :: bool
  canvas :: "Canvas option"
  state :: GameState
  score :: int
  life :: int
  level :: int
  combo :: int
  maxCombo :: int
  items :: "Item list"
  laneCount :: int
  playerLane :: int
  playerX :: real
  targetX :: real
  shakeTimer :: int
  flashTimer :: int
  baseSpeed :: real
  spawnTimer :: int
  spawnInterval :: int
  particles :: "Particle list"
  onScoreChange :: bool
  onGameEnd :: bool

record World = GameEngine +
  calls :: "event list"
  rand :: "nat \<Rightarrow> real"
  drawn :: nat

fun after :: "'a outcome \<Rightarrow> 'a" where
  "after (Returns w) = w"
| "after (Throws w) = w"

fun returned :: "'a outcome \<Rightarrow> bool" where
  "returned (Returns w) = True"
| "returned (Throws w) = False"

subsection \<open>Particle\<close>

definition Particle_new :: Particle where
  "Particle_new =
     \<lparr>p_active = False, p_x = 0, p_y = 0, p_vx = 0, p_vy = 0, p_life = 0,
      p_color = ''#FFF'', p_size = 0\<rparr>"

text \<open>\<open>Particle.spawn\<close>; \<open>r1\<close>, \<open>r2\<close>, \<open>r3\<close> are its three random draws, in order.\<close>

definition Particle_spawn ::
  "real \<Rightarrow> real \<Rightarrow> string \<Rightarrow> real \<Rightarrow> real \<Rightarrow> real \<Rightarrow> Particle \<Rightarrow> Particle" where
  "Particle_spawn x y color r1 r2 r3 p =
     (let angle = r1 * pi * 2;
          speed = r2 * 5 + 2
      in p\<lparr>p_active := True, p_x := x, p_y := y,
            p_vx := cos angle * speed, p_vy := sin angle * speed,
            p_life := 1, p_color := color, p_size := r3 * 6 + 4\<rparr>)"

definition Particle_update :: "Particle \<Rightarrow> Particle" where
  "Particle_update p =
     (if \<not> p_active p then p
      else
        let p1 = p\<lparr>p_x := p_x p + p_vx p\<rparr>;
            p2 = p1\<lparr>p_y := p_y p1 + p_vy p1\<rparr>;
            p3 = p2\<lparr>p_vy := p_vy p2 + 0.2\<rparr>;
            p4 = p3\<lparr>p_life := p_life p3 - 0.03\<rparr>;
            p5 = p4\<lparr>p_size := p_size p4 * 0.96\<rparr>
        in if p_life p5 \<le> 0 then p5\<lparr>p_active := False\<rparr> else p5)"

subsection \<open>GameEngine\<close>

definition GameEngine_new :: "(nat \<Rightarrow> real) \<Rightarrow> World" where
  "GameEngine_new rnd =
     \<lparr>ctx = False, canvas = None, state = READY, score = 0, life = 3, level = 1,
      combo = 0, maxCombo = 0, items = [], laneCount = 3, playerLane = 1,
      playerX = 0, targetX = 0, shakeTimer = 0, flashTimer = 0, baseSpeed = 6,
      spawnTimer = 0, spawnInterval = 45, particles = replicate 100 Particle_new,
      onScoreChange = False, onGameEnd = False,
      calls = [], rand = rnd, drawn = 0\<rparr>"

definition init :: "Canvas \<Rightarrow> World \<Rightarrow> World" where
  "init c w =
     w\<lparr>canvas := Some c, ctx := has_2d c, playerX := width c / 2, targetX := width c / 2\<rparr>"

definition notifyUI :: "World \<Rightarrow> World" where
  "notifyUI w =
     (if onScoreChange w
      then w\<lparr>calls := calls w @ [ScoreChange (score w) (life w) (level w) (combo w)]\<rparr>
      else w)"

definition start :: "World \<Rightarrow> World" where
  "start w =
     notifyUI
       (w\<lparr>state := PLAYING, score := 0, life := 3, level := 1, combo := 0, items := [],
          baseSpeed := 6,
          particles := map (\<lambda>p. p\<lparr>p_active := False\<rparr>) (particles w)\<rparr>)"

definition gameOver :: "World \<Rightarrow> World" where
  "gameOver w =
     (let w1 = w\<lparr>state := GAME_OVER\<rparr>
      in if onGameEnd w1 then w1\<lparr>calls := calls w1 @ [GameEnd (score w1) (level w1)]\<rparr>
         else w1)"

definition setPose :: "string \<Rightarrow> World \<Rightarrow> World outcome" where
  "setPose poseLabel w =
     (if state w \<noteq> PLAYING then Returns w
      else case canvas w of
        None \<Rightarrow> Throws w
      | Some c \<Rightarrow>
          let laneWidth = width c / 3
          in if poseLabel = ''Left'' then Returns (w\<lparr>targetX := laneWidth * 0.5\<rparr>)
             else if poseLabel = ''Center'' then Returns (w\<lparr>targetX := laneWidth * 1.5\<rparr>)
             else if poseLabel = ''Right'' then Returns (w\<lparr>targetX := laneWidth * 2.5\<rparr>)
             else Returns w)"

text \<open>
  The loop of \<open>spawnExplosion\<close> over the pool: \<open>k\<close> is the position in the random stream,
  \<open>count\<close> the particles spawned so far. The result is the pool and the new stream position.
\<close>

fun explode ::
  "real \<Rightarrow> real \<Rightarrow> string \<Rightarrow> (nat \<Rightarrow> real) \<Rightarrow> nat \<Rightarrow> nat \<Rightarrow> Particle list
     \<Rightarrow> Particle list \<times> nat" where
  "explode x y color rnd k count [] = ([], k)"
| "explode x y color rnd k count (p # ps) =
     (if \<not> p_active p then
        (let p' = Particle_spawn x y color (rnd k) (rnd (k + 1)) (rnd (k + 2)) p
         in if count + 1 \<ge> 15 then (p' # ps, k + 3)
            else (case explode x y color rnd (k + 3) (count + 1) ps of
                    (ps', k') \<Rightarrow> (p' # ps', k')))
      else (case explode x y color rnd k count ps of (ps', k') \<Rightarrow> (p # ps', k')))"

definition spawnExplosion :: "real \<Rightarrow> real \<Rightarrow> string \<Rightarrow> World \<Rightarrow> World" where
  "spawnExplosion x y color w =
     (case explode x y color (rand w) (drawn w) 0 (particles w) of
        (ps, k) \<Rightarrow> w\<lparr>particles := ps, drawn := k\<rparr>)"

definition resetCombo :: "World \<Rightarrow> World" where
  "resetCombo w = notifyUI (w\<lparr>combo := 0\<rparr>)"

definition handleCollision :: "Item \<Rightarrow> World \<Rightarrow> World" where
  "handleCollision item w =
     (let w1 =
        (if i_type item = ''bomb'' then
           (let a = w\<lparr>life := life w - 1\<rparr>;
                b = resetCombo a;
                c = b\<lparr>shakeTimer := 20\<rparr>
            in spawnExplosion (i_x item) (i_y item) ''#555'' c)
         else
           (let a = w\<lparr>combo := combo w + 1\<rparr>;
                multiplier = 1 + combo a div 10;
                b = a\<lparr>score := score a + i_score item * multiplier\<rparr>;
                c = spawnExplosion (i_x item) (i_y item) (i_color item) b;
                d = (if i_type item = ''diamond'' then c\<lparr>flashTimer := 5\<rparr> else c)
            in if score d smod 1000 < 200 then d\<lparr>baseSpeed := baseSpeed d + 0.05\<rparr>
               else d));
          w2 = notifyUI w1
      in if life w2 \<le> 0 then gameOver w2 else w2)"

definition types :: "ItemType list" where
  "types =
     [\<lparr>t_id = ''apple'', t_score = 100, t_color = ''#FF4444'', t_icon = ''U+1F34E''\<rparr>,
      \<lparr>t_id = ''grape'', t_score = 200, t_color = ''#AA44FF'', t_icon = ''U+1F347''\<rparr>,
      \<lparr>t_id = ''orange'', t_score = 300, t_color = ''#FFAA00'', t_icon = ''U+1F34A''\<rparr>,
      \<lparr>t_id = ''diamond'', t_score = 1000, t_color = ''#00FFFF'', t_icon = ''U+1F48E''\<rparr>,
      \<lparr>t_id = ''bomb'', t_score = 0, t_color = ''#666666'', t_icon = ''U+1F4A3''\<rparr>]"

definition spawnItem :: "World \<Rightarrow> World outcome" where
  "spawnItem w =
     (let lane = \<lfloor>rand w (drawn w) * 3\<rfloor>;
          w1 = w\<lparr>drawn := drawn w + 1\<rparr>
      in case canvas w1 of
        None \<Rightarrow> Throws w1
      | Some c \<Rightarrow>
          let laneWidth = width c / 3;
              x = of_int lane * laneWidth + laneWidth / 2;
              r = rand w1 (drawn w1);
              w2 = w1\<lparr>drawn := drawn w1 + 1\<rparr>;
              type = (if r < 0.2 then types ! 4
                      else if r < 0.3 then types ! 3
                      else if r < 0.5 then types ! 2
                      else if r < 0.7 then types ! 1
                      else types ! 0);
              jitter = rand w2 (drawn w2);
              w3 = w2\<lparr>drawn := drawn w2 + 1\<rparr>
          in Returns
               (w3\<lparr>items := items w3 @
                    [\<lparr>i_x = x, i_y = - 60, i_type = t_id type, i_score = t_score type,
                      i_icon = t_icon type, i_color = t_color type,
                      i_speed = baseSpeed w3 + jitter * 2, i_angle = 0\<rparr>]\<rparr>))"

text \<open>\<open>splice(i, 1)\<close> on an array.\<close>

definition splice1 :: "nat \<Rightarrow> 'a list \<Rightarrow> 'a list" where
  "splice1 i xs = take i xs @ drop (Suc i) xs"

text \<open>
  The body of the item loop of \<open>update\<close> at index \<open>i\<close>, in three named parts: \<open>advance\<close>
  moves the item, \<open>hits\<close> is the collision test against the player at \<open>px\<close>, \<open>fell\<close>
  the test for the bottom of the canvas. The loop only runs the body with
  \<open>i < length (items w)\<close>, and the body keeps the next index in range (lemma
  \<open>update_item_length\<close>).
\<close>

definition advance :: "Item \<Rightarrow> Item" where
  "advance item0 =
     (let item1 = item0\<lparr>i_y := i_y item0 + i_speed item0\<rparr>
      in item1\<lparr>i_angle := i_angle item1 + 0.05\<rparr>)"

definition hits :: "Canvas \<Rightarrow> real \<Rightarrow> Item \<Rightarrow> bool" where
  "hits c px item =
     (let playerY = height c * 0.85;
          hitDist = 50
      in \<bar>i_y item - playerY\<bar> < hitDist \<and> \<bar>i_x item - px\<bar> < hitDist)"

definition fell :: "Canvas \<Rightarrow> Item \<Rightarrow> bool" where
  "fell c item = (i_y item > height c)"

definition update_item :: "Canvas \<Rightarrow> nat \<Rightarrow> World \<Rightarrow> World" where
  "update_item c i w =
     (let item = advance (items w ! i);
          w1 = w\<lparr>items := (items w)[i := item]\<rparr>
      in if hits c (playerX w1) item then
           (let w2 = handleCollision item w1
            in w2\<lparr>items := splice1 i (items w2)\<rparr>)
         else if fell c item then
           resetCombo (w1\<lparr>items := splice1 i (items w1)\<rparr>)
         else w1)"

text \<open>\<open>for (let i = n - 1; i >= 0; i--)\<close>: \<open>update_items c n\<close> runs the body at \<open>n - 1, \<dots>, 0\<close>.\<close>

fun update_items :: "Canvas \<Rightarrow> nat \<Rightarrow> World \<Rightarrow> World" where
  "update_items c 0 w = w"
| "update_items c (Suc i) w = update_items c i (update_item c i w)"

text \<open>The part of \<open>update\<close> after the spawn system.\<close>

definition update_logic :: "World \<Rightarrow> World outcome" where
  "update_logic w =
     (case canvas w of
        None \<Rightarrow> Throws w
      | Some c \<Rightarrow>
          let w1 = update_items c (length (items w)) w;
              w2 = w1\<lparr>particles := map Particle_update (particles w1)\<rparr>;
              w3 = (if shakeTimer w2 > 0 then w2\<lparr>shakeTimer := shakeTimer w2 - 1\<rparr> else w2);
              w4 = (if flashTimer w3 > 0 then w3\<lparr>flashTimer := flashTimer w3 - 1\<rparr> else w3)
          in Returns w4)"

definition update :: "World \<Rightarrow> World outcome" where
  "update w =
     (if state w \<noteq> PLAYING then Returns w
      else
        let w1 = w\<lparr>playerX := playerX w + (targetX w - playerX w) * 0.4\<rparr>;
            w2 = w1\<lparr>spawnTimer := spawnTimer w1 + 1\<rparr>
        in if spawnTimer w2 > spawnInterval w2 then
             (case spawnItem w2 of
                Throws e \<Rightarrow> Throws e
              | Returns w3 \<Rightarrow> update_logic (w3\<lparr>spawnTimer := 0\<rparr>))
           else update_logic w2)"

text \<open>
  \<open>draw\<close> changes no field of the engine; it draws two random numbers for the screen shake.
\<close>

definition draw :: "World \<Rightarrow> World outcome" where
  "draw w =
     (if \<not> ctx w then Returns w
      else case canvas w of
        None \<Rightarrow> Throws w
      | Some c \<Rightarrow> Returns (if shakeTimer w > 0 then w\<lparr>drawn := drawn w + 2\<rparr> else w))"

subsection \<open>Sessions\<close>

text \<open>
  What a host can do with an engine: call a method or install or remove a listener.
  After an exception the engine stays as the throwing call left it.
\<close>

datatype call =
    Init Canvas
  | Start
  | SetPose string
  | Update
  | Draw
  | SpawnExplosion real real string
  | SetOnScoreChange bool
  | SetOnGameEnd bool

fun exec :: "call \<Rightarrow> World \<Rightarrow> World outcome" where
  "exec (Init c) w = Returns (init c w)"
| "exec Start w = Returns (start w)"
| "exec (SetPose l) w = setPose l w"
| "exec Update w = update w"
| "exec Draw w = draw w"
| "exec (SpawnExplosion x y color) w = Returns (spawnExplosion x y color w)"
| "exec (SetOnScoreChange b) w = Returns (w\<lparr>onScoreChange := b\<rparr>)"
| "exec (SetOnGameEnd b) w = Returns (w\<lparr>onGameEnd := b\<rparr>)"

fun run :: "call list \<Rightarrow> World \<Rightarrow> World" where
  "run [] w = w"
| "run (c # cs) w = run cs (after (exec c w))"

subsection \<open>Observations used in the statements\<close>

text \<open>The number of active slots of a pool, and the level that a listener call reports.\<close>

definition active_count :: "Particle list \<Rightarrow> nat" where
  "active_count ps = length (filter p_active ps)"

fun event_level :: "event \<Rightarrow> int" where
  "event_level (ScoreChange s l lv c) = lv"
| "event_level (GameEnd s lv) = lv"

text \<open>A run of collisions, in the order in which \<open>handleCollision\<close> is called.\<close>

fun collisions :: "Item list \<Rightarrow> World \<Rightarrow> World" where
  "collisions [] w = w"
| "collisions (item # rest) w = collisions rest (handleCollision item w)"

subsection \<open>The pose handler of the lane-discrete engine\<close>

definition toUpperCase_char :: "char \<Rightarrow> char" where
  "toUpperCase_char ch =
     (let n = (of_char ch :: nat)
      in if 97 \<le> n \<and> n \<le> 122 then char_of (n - 32) else ch)"

definition toUpperCase :: "string \<Rightarrow> string" where
  "toUpperCase s = map toUpperCase_char s"

record LaneEngine =
  l_state :: GameState
  l_playerLane :: int

definition lane_setPose :: "string \<Rightarrow> LaneEngine \<Rightarrow> LaneEngine" where
  "lane_setPose poseLabel e =
     (if l_state e \<noteq> PLAYING then e
      else
        let label = toUpperCase poseLabel
        in if label = ''LEFT'' then e\<lparr>l_playerLane := 0\<rparr>
           else if label = ''CENTER'' then e\<lparr>l_playerLane := 1\<rparr>
           else if label = ''RIGHT'' then e\<lparr>l_playerLane := 2\<rparr>
           else e)"

subsection \<open>Traces and invariants used in the statements\<close>

text \<open>The lane after each label of a stream, for the lane-discrete engine.\<close>

fun lane_trace :: "string list \<Rightarrow> LaneEngine \<Rightarrow> int list" where
  "lane_trace [] e = []"
| "lane_trace (l # ls) e = l_playerLane (lane_setPose l e) # lane_trace ls (lane_setPose l e)"

text \<open>The target after each label of a stream, for the pooled engine.\<close>

fun target_trace :: "string list \<Rightarrow> World \<Rightarrow> real list" where
  "target_trace [] w = []"
| "target_trace (l # ls) w =
     targetX (after (setPose l w)) # target_trace ls (after (setPose l w))"

text \<open>The level is 1 and every call made to a listener so far reported level 1.\<close>

definition level_one :: "World \<Rightarrow> bool" where
  "level_one w \<longleftrightarrow> level w = 1 \<and> list_all (\<lambda>e. event_level e = 1) (calls w)"

text \<open>The combo is not negative and no item on the field has a negative score.\<close>

definition scoring_ok :: "World \<Rightarrow> bool" where
  "scoring_ok w \<longleftrightarrow> 0 \<le> combo w \<and> list_all (\<lambda>it. 0 \<le> i_score it) (items w)"

fun poses_and_updates :: "call list \<Rightarrow> bool" where
  "poses_and_updates [] = True"
| "poses_and_updates (Update # cs) = poses_and_updates cs"
| "poses_and_updates (SetPose l # cs) = poses_and_updates cs"
| "poses_and_updates (c # cs) = False"

subsection \<open>Concrete engines and items\<close>

definition demo_canvas :: Canvas where
  "demo_canvas = \<lparr>width = 300, height = 400, has_2d = True\<rparr>"

text \<open>An item of the given row of \<open>types\<close>, built as \<open>spawnItem\<close> builds it.\<close>

definition item_of :: "ItemType \<Rightarrow> real \<Rightarrow> real \<Rightarrow> real \<Rightarrow> Item" where
  "item_of t x y v =
     \<lparr>i_x = x, i_y = y, i_type = t_id t, i_score = t_score t, i_icon = t_icon t,
      i_color = t_color t, i_speed = v, i_angle = 0\<rparr>"

definition apple :: Item where
  "apple = item_of (types ! 0) 150 300 6"

definition orange :: Item where
  "orange = item_of (types ! 2) 150 300 6"

definition bomb :: Item where
  "bomb = item_of (types ! 4) 150 300 6"

text \<open>A session that has just started, with both listeners installed.\<close>

definition playing :: World where
  "playing =
     run [Init demo_canvas, SetOnScoreChange True, SetOnGameEnd True, Start]
       (GameEngine_new (\<lambda>n. 0))"

text \<open>A session on the small canvas with a combo of 7 and one apple about to leave the field.\<close>

definition slipping :: World where
  "slipping = playing\<lparr>combo := 7, items := [item_of (types ! 0) 50 398 6]\<rparr>"

text \<open>The label stream of the specification's scenario.\<close>

definition label_stream :: "string list" where
  "label_stream = [''left'', ''center'', ''LEFT'', ''bogus'', ''right'']"

text \<open>A session on the small canvas with one apple just above the player's row.\<close>

definition catching :: World where
  "catching = playing\<lparr>items := [apple]\<rparr>"

subsection \<open>Frames in which nothing is hit, missed or spawned\<close>

text \<open>\<open>n\<close> calls of \<open>update\<close> in a row.\<close>

definition ticks :: "nat \<Rightarrow> World \<Rightarrow> World" where
  "ticks n w = run (replicate n Update) w"

text \<open>An item after \<open>n\<close> iterations of the loop that only moved it.\<close>

definition advance_by :: "nat \<Rightarrow> Item \<Rightarrow> Item" where
  "advance_by n item =
     item\<lparr>i_y := i_y item + real n * i_speed item, i_angle := i_angle item + 0.05 * real n\<rparr>"

text \<open>
  An item that stays on the canvas for its next \<open>n\<close> moves and is never within reach of a
  player standing at \<open>px\<close>: it is in another lane or stays above the player's row.
\<close>

definition drifts :: "Canvas \<Rightarrow> real \<Rightarrow> nat \<Rightarrow> Item \<Rightarrow> bool" where
  "drifts c px n item \<longleftrightarrow>
     0 \<le> i_speed item \<and> i_y item + real n * i_speed item \<le> height c
     \<and> (50 \<le> \<bar>i_x item - px\<bar> \<or> i_y item + real n * i_speed item \<le> height c * 0.85 - 50)"

text \<open>A frame timer: it counts down to 0.\<close>

definition countdown :: "int \<Rightarrow> int" where
  "countdown t = (if t > 0 then t - 1 else t)"

text \<open>The engine after \<open>n\<close> frames in which the items only moved.\<close>

definition quietly :: "nat \<Rightarrow> World \<Rightarrow> World" where
  "quietly n w =
     w\<lparr>spawnTimer := spawnTimer w + int n, items := map (advance_by n) (items w),
       particles := (map Particle_update ^^ n) (particles w),
       shakeTimer := (countdown ^^ n) (shakeTimer w),
       flashTimer := (countdown ^^ n) (flashTimer w)\<rparr>"

subsection \<open>A session that ends twice\<close>

text \<open>
  A host that uses only the engine's methods: a canvas of 300 by 1600, the game-end
  listener installed, \<open>start\<close>, and then one \<open>update\<close> per frame. \<open>Math.random\<close> returns
  0.5, 0, 0 for each of the first three items (centre lane, bomb, speed 6), then 0.5, 0, 0.75
  for the fourth (centre lane, bomb, speed 7.5) and 0 from then on (left lane, bomb, speed 6).
\<close>

definition c1600 :: Canvas where
  "c1600 = \<lparr>width = 300, height = 1600, has_2d = True\<rparr>"

definition draws :: "nat \<Rightarrow> real" where
  "draws n = (if n = 0 \<or> n = 3 \<or> n = 6 \<or> n = 9 then 0.5 else if n = 11 then 0.75 else 0)"

definition session :: World where
  "session = run [Init c1600, SetOnGameEnd True, Start] (GameEngine_new draws)"

definition frame :: "nat \<Rightarrow> World" where
  "frame n = ticks n session"

text \<open>What no frame of this session changes.\<close>

definition rigged :: "World \<Rightarrow> bool" where
  "rigged w \<longleftrightarrow>
     canvas w = Some c1600 \<and> targetX w = 150 \<and> playerX w = 150 \<and> spawnInterval w = 45
     \<and> rand w = draws \<and> \<not> onScoreChange w \<and> onGameEnd w \<and> baseSpeed w = 6 \<and> level w = 1
     \<and> score w = 0 \<and> combo w = 0"

text \<open>A bomb of this session in the centre lane or in the left lane.\<close>

definition centre_bomb :: "real \<Rightarrow> real \<Rightarrow> real \<Rightarrow> Item" where
  "centre_bomb y v a = (item_of (types ! 4) 150 y v)\<lparr>i_angle := a\<rparr>"

definition left_bomb :: "real \<Rightarrow> real \<Rightarrow> real \<Rightarrow> Item" where
  "left_bomb y v a = (item_of (types ! 4) 50 y v)\<lparr>i_angle := a\<rparr>"

text \<open>The engine \<open>w\<close> shows the given state, life, spawn timer, listener calls and items.\<close>

definition staged ::
  "World \<Rightarrow> GameState \<Rightarrow> int \<Rightarrow> int \<Rightarrow> event list \<Rightarrow> Item list \<Rightarrow> bool" where
  "staged w st l t es its \<longleftrightarrow>
     rigged w \<and> state w = st \<and> life w = l \<and> spawnTimer w = t \<and> calls w = es \<and> items w = its"

section \<open>Properties of the methods\<close>

subsection \<open>What each method leaves unchanged\<close>

lemma notifyUI_fields [simp]:
  "ctx (notifyUI w) = ctx w" "canvas (notifyUI w) = canvas w" "state (notifyUI w) = state w"
  "score (notifyUI w) = score w" "life (notifyUI w) = life w" "level (notifyUI w) = level w"
  "combo (notifyUI w) = combo w" "maxCombo (notifyUI w) = maxCombo w"
  "items (notifyUI w) = items w" "laneCount (notifyUI w) = laneCount w"
  "playerLane (notifyUI w) = playerLane w" "playerX (notifyUI w) = playerX w"
  "targetX (notifyUI w) = targetX w" "shakeTimer (notifyUI w) = shakeTimer w"
  "flashTimer (notifyUI w) = flashTimer w" "baseSpeed (notifyUI w) = baseSpeed w"
  "spawnTimer (notifyUI w) = spawnTimer w" "spawnInterval (notifyUI w) = spawnInterval w"
  "particles (notifyUI w) = particles w" "onScoreChange (notifyUI w) = onScoreChange w"
  "onGameEnd (notifyUI w) = onGameEnd w" "rand (notifyUI w) = rand w"
  "drawn (notifyUI w) = drawn w"
  by (simp_all add: notifyUI_def)

lemma notifyUI_calls:
  "calls (notifyUI w) =
     calls w @ (if onScoreChange w then [ScoreChange (score w) (life w) (level w) (combo w)] else [])"
  by (simp add: notifyUI_def)

lemma gameOver_fields [simp]:
  "ctx (gameOver w) = ctx w" "canvas (gameOver w) = canvas w" "score (gameOver w) = score w"
  "life (gameOver w) = life w" "level (gameOver w) = level w" "combo (gameOver w) = combo w"
  "maxCombo (gameOver w) = maxCombo w" "items (gameOver w) = items w"
  "laneCount (gameOver w) = laneCount w" "playerLane (gameOver w) = playerLane w"
  "playerX (gameOver w) = playerX w" "targetX (gameOver w) = targetX w"
  "shakeTimer (gameOver w) = shakeTimer w" "flashTimer (gameOver w) = flashTimer w"
  "baseSpeed (gameOver w) = baseSpeed w" "spawnTimer (gameOver w) = spawnTimer w"
  "spawnInterval (gameOver w) = spawnInterval w" "particles (gameOver w) = particles w"
  "onScoreChange (gameOver w) = onScoreChange w" "onGameEnd (gameOver w) = onGameEnd w"
  "rand (gameOver w) = rand w" "drawn (gameOver w) = drawn w" "state (gameOver w) = GAME_OVER"
  by (simp_all add: gameOver_def Let_def)

lemma gameOver_calls:
  "calls (gameOver w) = calls w @ (if onGameEnd w then [GameEnd (score w) (level w)] else [])"
  by (simp add: gameOver_def Let_def)

lemma resetCombo_fields [simp]:
  "ctx (resetCombo w) = ctx w" "canvas (resetCombo w) = canvas w"
  "state (resetCombo w) = state w" "score (resetCombo w) = score w"
  "life (resetCombo w) = life w" "level (resetCombo w) = level w"
  "maxCombo (resetCombo w) = maxCombo w" "items (resetCombo w) = items w"
  "laneCount (resetCombo w) = laneCount w" "playerLane (resetCombo w) = playerLane w"
  "playerX (resetCombo w) = playerX w" "targetX (resetCombo w) = targetX w"
  "shakeTimer (resetCombo w) = shakeTimer w" "flashTimer (resetCombo w) = flashTimer w"
  "baseSpeed (resetCombo w) = baseSpeed w" "spawnTimer (resetCombo w) = spawnTimer w"
  "spawnInterval (resetCombo w) = spawnInterval w" "particles (resetCombo w) = particles w"
  "onScoreChange (resetCombo w) = onScoreChange w" "onGameEnd (resetCombo w) = onGameEnd w"
  "rand (resetCombo w) = rand w" "drawn (resetCombo w) = drawn w" "combo (resetCombo w) = 0"
  by (simp_all add: resetCombo_def)

lemma resetCombo_calls:
  "calls (resetCombo w) =
     calls w @ (if onScoreChange w then [ScoreChange (score w) (life w) (level w) 0] else [])"
  by (simp add: resetCombo_def notifyUI_calls)

lemma spawnExplosion_fields [simp]:
  "ctx (spawnExplosion x y color w) = ctx w" "canvas (spawnExplosion x y color w) = canvas w"
  "state (spawnExplosion x y color w) = state w" "score (spawnExplosion x y color w) = score w"
  "life (spawnExplosion x y color w) = life w" "level (spawnExplosion x y color w) = level w"
  "combo (spawnExplosion x y color w) = combo w"
  "maxCombo (spawnExplosion x y color w) = maxCombo w"
  "items (spawnExplosion x y color w) = items w"
  "laneCount (spawnExplosion x y color w) = laneCount w"
  "playerLane (spawnExplosion x y color w) = playerLane w"
  "playerX (spawnExplosion x y color w) = playerX w"
  "targetX (spawnExplosion x y color w) = targetX w"
  "shakeTimer (spawnExplosion x y color w) = shakeTimer w"
  "flashTimer (spawnExplosion x y color w) = flashTimer w"
  "baseSpeed (spawnExplosion x y color w) = baseSpeed w"
  "spawnTimer (spawnExplosion x y color w) = spawnTimer w"
  "spawnInterval (spawnExplosion x y color w) = spawnInterval w"
  "onScoreChange (spawnExplosion x y color w) = onScoreChange w"
  "onGameEnd (spawnExplosion x y color w) = onGameEnd w"
  "calls (spawnExplosion x y color w) = calls w" "rand (spawnExplosion x y color w) = rand w"
  by (simp_all add: spawnExplosion_def split_beta)

lemma handleCollision_fields [simp]:
  "ctx (handleCollision item w) = ctx w" "canvas (handleCollision item w) = canvas w"
  "level (handleCollision item w) = level w" "maxCombo (handleCollision item w) = maxCombo w"
  "items (handleCollision item w) = items w" "laneCount (handleCollision item w) = laneCount w"
  "playerLane (handleCollision item w) = playerLane w"
  "playerX (handleCollision item w) = playerX w" "targetX (handleCollision item w) = targetX w"
  "spawnTimer (handleCollision item w) = spawnTimer w"
  "spawnInterval (handleCollision item w) = spawnInterval w"
  "onScoreChange (handleCollision item w) = onScoreChange w"
  "onGameEnd (handleCollision item w) = onGameEnd w" "rand (handleCollision item w) = rand w"
  by (simp_all add: handleCollision_def Let_def)

lemma handleCollision_life:
  "life (handleCollision item w) = (if i_type item = ''bomb'' then life w - 1 else life w)"
  by (simp add: handleCollision_def Let_def)

lemma handleCollision_combo:
  "combo (handleCollision item w) = (if i_type item = ''bomb'' then 0 else combo w + 1)"
  by (simp add: handleCollision_def Let_def)

lemma handleCollision_score:
  "score (handleCollision item w) =
     (if i_type item = ''bomb'' then score w
      else score w + i_score item * (1 + (combo w + 1) div 10))"
  by (simp add: handleCollision_def Let_def)

lemma handleCollision_state:
  "state (handleCollision item w) =
     (if life (handleCollision item w) \<le> 0 then GAME_OVER else state w)"
  by (simp add: handleCollision_def Let_def)

lemma handleCollision_baseSpeed:
  "baseSpeed (handleCollision item w) =
     (if i_type item \<noteq> ''bomb'' \<and> score (handleCollision item w) smod 1000 < 200
      then baseSpeed w + 0.05 else baseSpeed w)"
  by (simp add: handleCollision_def Let_def)

lemma handleCollision_calls:
  "calls (handleCollision item w) =
     calls w
     @ (if i_type item = ''bomb'' \<and> onScoreChange w
        then [ScoreChange (score w) (life w - 1) (level w) 0] else [])
     @ (if onScoreChange w
        then [ScoreChange (score (handleCollision item w)) (life (handleCollision item w))
                (level w) (combo (handleCollision item w))]
        else [])
     @ (if life (handleCollision item w) \<le> 0 \<and> onGameEnd w
        then [GameEnd (score (handleCollision item w)) (level w)] else [])"
  by (simp add: handleCollision_def Let_def gameOver_calls notifyUI_calls resetCombo_calls)

lemma handleCollision_timers:
  "shakeTimer (handleCollision item w) = (if i_type item = ''bomb'' then 20 else shakeTimer w)"
  "flashTimer (handleCollision item w) =
     (if i_type item \<noteq> ''bomb'' \<and> i_type item = ''diamond'' then 5 else flashTimer w)"
  by (simp_all add: handleCollision_def Let_def)

subsection \<open>The particle pool\<close>

lemma active_count_le: "active_count ps \<le> length ps"
  by (simp add: active_count_def)

lemma active_count_Cons:
  "active_count (p # ps) = (if p_active p then Suc (active_count ps) else active_count ps)"
  by (simp add: active_count_def)

lemma Particle_spawn_active: "p_active (Particle_spawn x y color r1 r2 r3 p)"
  by (simp add: Particle_spawn_def Let_def)

lemma explode_length: "length (fst (explode x y color rnd k n ps)) = length ps"
  by (induction ps arbitrary: k n) (simp_all add: Let_def split_beta)

lemma explode_active:
  "n < 15 \<Longrightarrow>
   active_count (fst (explode x y color rnd k n ps)) =
     active_count ps + min (15 - n) (length ps - active_count ps)"
proof (induction ps arbitrary: k n)
  case Nil
  then show ?case by (simp add: active_count_def)
next
  case (Cons p ps)
  have le: "active_count ps \<le> length ps" by (rule active_count_le)
  show ?case
  proof (cases "p_active p")
    case True
    with Cons.IH [OF Cons.prems, of k] show ?thesis
      by (simp add: active_count_Cons split_beta)
  next
    case idle: False
    show ?thesis
    proof (cases "n = 14")
      case True
      with idle le show ?thesis
        by (simp add: active_count_Cons Particle_spawn_active Let_def)
    next
      case False
      with Cons.prems have "n + 1 < 15" by simp
      from Cons.IH [OF this, of "k + 3"] idle False Cons.prems le show ?thesis
        by (simp add: active_count_Cons Particle_spawn_active Let_def split_beta)
    qed
  qed
qed

lemma spawnExplosion_length:
  "length (particles (spawnExplosion x y color w)) = length (particles w)"
  using explode_length [of x y color "rand w" "drawn w" 0 "particles w"]
  by (simp add: spawnExplosion_def split_beta)

lemma spawnExplosion_active:
  "active_count (particles (spawnExplosion x y color w)) =
     active_count (particles w) + min 15 (length (particles w) - active_count (particles w))"
  using explode_active [of 0 x y color "rand w" "drawn w" "particles w"]
  by (simp add: spawnExplosion_def split_beta)

lemma new_pool:
  "length (particles (GameEngine_new rnd)) = 100"
  "active_count (particles (GameEngine_new rnd)) = 0"
  by (simp_all add: GameEngine_new_def active_count_def Particle_new_def)

subsection \<open>The concrete engines\<close>

lemma playing_fields:
  "state playing = PLAYING" "score playing = 0" "life playing = 3" "level playing = 1"
  "combo playing = 0" "items playing = []" "baseSpeed playing = 6"
  "canvas playing = Some demo_canvas" "playerX playing = 150" "targetX playing = 150"
  "onScoreChange playing" "onGameEnd playing" "calls playing = [ScoreChange 0 3 1 0]"
  "spawnTimer playing = 0" "spawnInterval playing = 45" "shakeTimer playing = 0"
  "flashTimer playing = 0"
  by (simp_all add: playing_def init_def start_def notifyUI_def GameEngine_new_def
        demo_canvas_def)

lemma item_fields:
  "i_type apple = ''apple''" "i_score apple = 100" "i_type bomb = ''bomb''" "i_score bomb = 0"
  "i_type orange = ''orange''" "i_score orange = 300"
  by (simp_all add: apple_def bomb_def orange_def item_of_def types_def)

lemma nine_apples:
  "score (collisions (replicate 9 apple) playing) = 900"
  "combo (collisions (replicate 9 apple) playing) = 9"
  "baseSpeed (collisions (replicate 9 apple) playing) = 6.05"
  by (simp_all add: eval_nat_numeral handleCollision_score handleCollision_combo
        handleCollision_baseSpeed playing_fields item_fields signed_modulo_int_def)

lemma slipping_fields:
  "state slipping = PLAYING" "score slipping = 0" "life slipping = 3" "level slipping = 1"
  "combo slipping = 7" "items slipping = [item_of (types ! 0) 50 398 6]"
  "canvas slipping = Some demo_canvas" "playerX slipping = 150" "targetX slipping = 150"
  "onScoreChange slipping" "onGameEnd slipping" "calls slipping = [ScoreChange 0 3 1 0]"
  "spawnTimer slipping = 0" "spawnInterval slipping = 45" "shakeTimer slipping = 0"
  "flashTimer slipping = 0"
  by (simp_all add: slipping_def playing_fields)

lemma catching_fields:
  "state catching = PLAYING" "score catching = 0" "life catching = 3" "level catching = 1"
  "combo catching = 0" "items catching = [apple]"
  "canvas catching = Some demo_canvas" "playerX catching = 150" "targetX catching = 150"
  "onScoreChange catching" "onGameEnd catching" "calls catching = [ScoreChange 0 3 1 0]"
  "spawnTimer catching = 0" "spawnInterval catching = 45" "shakeTimer catching = 0"
  "flashTimer catching = 0"
  by (simp_all add: catching_def playing_fields)

subsection \<open>Pose labels\<close>

lemma setPose_other_label:
  "l \<noteq> ''Left'' \<Longrightarrow> l \<noteq> ''Center'' \<Longrightarrow> l \<noteq> ''Right'' \<Longrightarrow> after (setPose l w) = w"
  by (simp add: setPose_def Let_def split: option.split)

lemma setPose_capitalised:
  "target_trace [''Left'', ''Center'', ''Left'', ''bogus'', ''Right''] playing
     = [50, 150, 50, 50, 250]"
  by (simp add: setPose_def playing_fields demo_canvas_def Let_def)

lemma lane_setPose_stream:
  "lane_trace label_stream \<lparr>l_state = PLAYING, l_playerLane = 1\<rparr> = [0, 1, 0, 0, 2]"
  by code_simp

subsection \<open>The item loop\<close>

lemma splice1_update: "splice1 i (xs[i := v]) = splice1 i xs"
  by (simp add: splice1_def)

lemma update_item_fields [simp]:
  "ctx (update_item c i w) = ctx w" "canvas (update_item c i w) = canvas w"
  "level (update_item c i w) = level w" "maxCombo (update_item c i w) = maxCombo w"
  "laneCount (update_item c i w) = laneCount w" "playerLane (update_item c i w) = playerLane w"
  "playerX (update_item c i w) = playerX w" "targetX (update_item c i w) = targetX w"
  "spawnTimer (update_item c i w) = spawnTimer w"
  "spawnInterval (update_item c i w) = spawnInterval w"
  "onScoreChange (update_item c i w) = onScoreChange w"
  "onGameEnd (update_item c i w) = onGameEnd w" "rand (update_item c i w) = rand w"
  by (simp_all add: update_item_def Let_def)

lemma update_item_items:
  "i < length (items w) \<Longrightarrow>
   items (update_item c i w) =
     take i (items w)
     @ (if hits c (playerX w) (advance (items w ! i)) \<or> fell c (advance (items w ! i))
        then [] else [advance (items w ! i)])
     @ drop (Suc i) (items w)"
  by (simp add: update_item_def Let_def splice1_update upd_conv_take_nth_drop)
     (simp add: splice1_def)

lemma update_item_length:
  "i < length (items w) \<Longrightarrow> i \<le> length (items (update_item c i w))"
  by (simp add: update_item_items)

lemma update_item_miss:
  "i < length (items w) \<Longrightarrow> \<not> hits c (playerX w) (advance (items w ! i)) \<Longrightarrow>
   fell c (advance (items w ! i)) \<Longrightarrow>
   items (update_item c i w) = splice1 i (items w) \<and> combo (update_item c i w) = 0"
  by (simp add: update_item_def Let_def splice1_update)

lemma update_items_fields [simp]:
  "ctx (update_items c n w) = ctx w" "canvas (update_items c n w) = canvas w"
  "level (update_items c n w) = level w" "maxCombo (update_items c n w) = maxCombo w"
  "laneCount (update_items c n w) = laneCount w" "playerLane (update_items c n w) = playerLane w"
  "playerX (update_items c n w) = playerX w" "targetX (update_items c n w) = targetX w"
  "spawnTimer (update_items c n w) = spawnTimer w"
  "spawnInterval (update_items c n w) = spawnInterval w"
  "onScoreChange (update_items c n w) = onScoreChange w"
  "onGameEnd (update_items c n w) = onGameEnd w" "rand (update_items c n w) = rand w"
  by (induction n arbitrary: w; simp)+

lemma update_items_items:
  "n \<le> length (items w) \<Longrightarrow>
   items (update_items c n w) =
     filter (\<lambda>it. \<not> hits c (playerX w) it \<and> \<not> fell c it) (map advance (take n (items w)))
     @ drop n (items w)"
proof (induction n arbitrary: w)
  case 0
  then show ?case by simp
next
  case (Suc n)
  then have lt: "n < length (items w)" by simp
  let ?w = "update_item c n w"
  have le: "n \<le> length (items ?w)" using lt by (rule update_item_length)
  have "items (update_items c (Suc n) w) = items (update_items c n ?w)" by simp
  also have "\<dots> =
      filter (\<lambda>it. \<not> hits c (playerX ?w) it \<and> \<not> fell c it) (map advance (take n (items ?w)))
      @ drop n (items ?w)"
    using le by (rule Suc.IH)
  finally show ?case using lt
    by (simp add: update_item_items take_Suc_conv_app_nth)
qed

lemma spawnItem_returns:
  "canvas w = Some c \<Longrightarrow>
   \<exists>w'. spawnItem w = Returns w' \<and> canvas w' = Some c \<and> playerX w' = playerX w
     \<and> state w' = state w"
  by (simp add: spawnItem_def Let_def)

lemma update_logic_items:
  "canvas w = Some c \<Longrightarrow>
   returned (update_logic w) \<and>
   items (after (update_logic w)) =
     filter (\<lambda>it. \<not> hits c (playerX w) it \<and> \<not> fell c it) (map advance (items w))"
  by (simp add: update_logic_def Let_def update_items_items)

lemma update_keeps_no_fallen:
  assumes "state w = PLAYING" "canvas w = Some c"
  shows "returned (update w) \<and> list_all (\<lambda>it. \<not> fell c it) (items (after (update w)))"
proof (cases "spawnTimer w + 1 > spawnInterval w")
  case True
  let ?w2 = "w\<lparr>playerX := playerX w + (targetX w - playerX w) * 0.4,
               spawnTimer := spawnTimer w + 1\<rparr>"
  have "canvas ?w2 = Some c" using assms by simp
  from spawnItem_returns [OF this] obtain w3
    where w3: "spawnItem ?w2 = Returns w3" "canvas w3 = Some c" by blast
  then have "canvas (w3\<lparr>spawnTimer := 0\<rparr>) = Some c" by simp
  from update_logic_items [OF this] True w3 assms show ?thesis
    by (simp add: update_def Let_def list_all_iff)
next
  case False
  let ?w2 = "w\<lparr>playerX := playerX w + (targetX w - playerX w) * 0.4,
               spawnTimer := spawnTimer w + 1\<rparr>"
  have "canvas ?w2 = Some c" using assms by simp
  from update_logic_items [OF this] False assms show ?thesis
    by (simp add: update_def Let_def list_all_iff)
qed

subsection \<open>Runs of collisions\<close>

lemma collisions_append:
  "collisions (xs @ ys) w = collisions ys (collisions xs w)"
  by (induction xs arbitrary: w) simp_all

lemma collisions_combo:
  "\<forall>it\<in>set its. i_type it \<noteq> ''bomb'' \<Longrightarrow>
   combo (collisions its w) = combo w + int (length its)"
  by (induction its arbitrary: w) (simp_all add: handleCollision_combo)

subsection \<open>The pool keeps its size\<close>

lemma handleCollision_pool:
  "length (particles (handleCollision item w)) = length (particles w)"
  by (simp add: handleCollision_def Let_def spawnExplosion_length)

lemma update_item_pool:
  "length (particles (update_item c i w)) = length (particles w)"
  by (simp add: update_item_def Let_def handleCollision_pool)

lemma update_items_pool:
  "length (particles (update_items c n w)) = length (particles w)"
  by (induction n arbitrary: w) (simp_all add: update_item_pool)

lemma spawnItem_pool:
  "length (particles (after (spawnItem w))) = length (particles w)"
  by (simp add: spawnItem_def Let_def split: option.split)

lemma update_logic_pool:
  "length (particles (after (update_logic w))) = length (particles w)"
  by (simp add: update_logic_def Let_def update_items_pool split: option.split)

lemma update_pool:
  "length (particles (after (update w))) = length (particles w)"
proof -
  have "length (particles (after (update_logic (v\<lparr>spawnTimer := 0\<rparr>)))) = length (particles v)"
    for v by (simp add: update_logic_pool)
  then show ?thesis
    using spawnItem_pool
      [of "w\<lparr>playerX := playerX w + (targetX w - playerX w) * 0.4,
              spawnTimer := spawnTimer w + 1\<rparr>"]
    by (auto simp add: update_def Let_def update_logic_pool split: outcome.split)
qed

lemma exec_pool:
  "length (particles (after (exec c w))) = length (particles w)"
proof (cases c)
  case Update
  then show ?thesis by (simp add: update_pool)
next
  case (SetPose l)
  then show ?thesis by (simp add: setPose_def Let_def split: option.split)
qed (simp_all add: init_def start_def draw_def spawnExplosion_length split: option.split)

lemma run_pool: "length (particles (run cs w)) = length (particles w)"
  by (induction cs arbitrary: w) (simp_all add: exec_pool)

subsection \<open>The level stays at 1\<close>

lemma level_one_notifyUI: "level_one w \<Longrightarrow> level_one (notifyUI w)"
  by (simp add: level_one_def notifyUI_calls)

lemma level_one_handleCollision: "level_one w \<Longrightarrow> level_one (handleCollision item w)"
  by (simp add: level_one_def handleCollision_calls)

lemma level_one_update_item: "level_one w \<Longrightarrow> level_one (update_item c i w)"
proof -
  assume w: "level_one w"
  then have "level_one (w\<lparr>items := xs\<rparr>)" for xs by (simp add: level_one_def)
  from level_one_handleCollision [OF this] w show ?thesis
    by (simp add: update_item_def Let_def) (simp add: level_one_def resetCombo_calls)
qed

lemma level_one_update_items: "level_one w \<Longrightarrow> level_one (update_items c n w)"
  by (induction n arbitrary: w) (simp_all add: level_one_update_item)

lemma level_one_spawnItem: "level_one w \<Longrightarrow> level_one (after (spawnItem w))"
  by (simp add: level_one_def spawnItem_def Let_def split: option.split)

lemma level_one_update_logic: "level_one w \<Longrightarrow> level_one (after (update_logic w))"
proof -
  assume w: "level_one w"
  have "level_one (update_items c (length (items w)) w)" for c
    using w by (rule level_one_update_items)
  then show ?thesis using w
    by (simp add: update_logic_def Let_def split: option.split) (simp add: level_one_def)
qed

lemma level_one_update: "level_one w \<Longrightarrow> level_one (after (update w))"
proof -
  assume w: "level_one w"
  let ?w2 = "w\<lparr>playerX := playerX w + (targetX w - playerX w) * 0.4,
               spawnTimer := spawnTimer w + 1\<rparr>"
  have w2: "level_one ?w2" using w by (simp add: level_one_def)
  have "level_one (after (update_logic (v\<lparr>spawnTimer := 0\<rparr>)))" if "level_one v" for v
    using that by (intro level_one_update_logic) (simp add: level_one_def)
  with level_one_spawnItem [OF w2] level_one_update_logic [OF w2] w show ?thesis
    by (auto simp add: update_def Let_def split: outcome.split)
qed

lemma level_one_exec: "level_one w \<Longrightarrow> level_one (after (exec c w))"
proof (cases c)
  case Update
  assume "level_one w"
  with Update show ?thesis by (simp add: level_one_update)
next
  case Start
  assume "level_one w"
  with Start show ?thesis by (simp add: level_one_def start_def notifyUI_calls)
next
  case (SetPose l)
  assume "level_one w"
  with SetPose show ?thesis
    by (simp add: level_one_def setPose_def Let_def split: option.split)
qed (simp_all add: level_one_def init_def draw_def split: option.split)

lemma level_one_run: "level_one w \<Longrightarrow> level_one (run cs w)"
  by (induction cs arbitrary: w) (simp_all add: level_one_exec)

lemma level_one_new: "level_one (GameEngine_new rnd)"
  by (simp add: level_one_def GameEngine_new_def)

subsection \<open>The score does not decrease\<close>

lemma multiplier_nonneg: "0 \<le> n \<Longrightarrow> 0 \<le> s \<Longrightarrow> (0::int) \<le> s * (1 + (n + 1) div 10)"
proof -
  assume "0 \<le> n" "0 \<le> s"
  then have "0 \<le> (n + 1) div 10" by simp
  with \<open>0 \<le> s\<close> show ?thesis by simp
qed

lemma handleCollision_scoring:
  assumes "0 \<le> combo w" "0 \<le> i_score item"
  shows "score w \<le> score (handleCollision item w) \<and> 0 \<le> combo (handleCollision item w)"
  using assms multiplier_nonneg [of "combo w" "i_score item"]
  by (simp add: handleCollision_score handleCollision_combo)

lemma advance_score [simp]: "i_score (advance item) = i_score item"
  by (simp add: advance_def Let_def)

lemma update_item_scoring:
  assumes "i < length (items w)" "scoring_ok w"
  shows "scoring_ok (update_item c i w) \<and> score w \<le> score (update_item c i w)"
proof -
  let ?item = "advance (items w ! i)"
  let ?w1 = "w\<lparr>items := (items w)[i := ?item]\<rparr>"
  from assms have item: "0 \<le> i_score ?item"
    by (simp add: scoring_ok_def list_all_length)
  from assms have "0 \<le> combo ?w1" by (simp add: scoring_ok_def)
  from handleCollision_scoring [OF this item]
  have hit: "score w \<le> score (handleCollision ?item ?w1)"
            "0 \<le> combo (handleCollision ?item ?w1)" by simp_all
  have all: "list_all (\<lambda>it. 0 \<le> i_score it) (items (update_item c i w))"
    using assms
    by (simp add: update_item_items scoring_ok_def list_all_iff)
       (auto dest: in_set_takeD in_set_dropD)
  have "0 \<le> combo (update_item c i w) \<and> score w \<le> score (update_item c i w)"
    using hit assms(2) by (simp add: update_item_def Let_def scoring_ok_def)
  with all show ?thesis by (simp add: scoring_ok_def)
qed

lemma update_items_scoring:
  "n \<le> length (items w) \<Longrightarrow> scoring_ok w \<Longrightarrow>
   scoring_ok (update_items c n w) \<and> score w \<le> score (update_items c n w)"
proof (induction n arbitrary: w)
  case 0
  then show ?case by simp
next
  case (Suc n)
  then have lt: "n < length (items w)" by simp
  from update_item_scoring [OF lt Suc.prems(2), of c]
  have step: "scoring_ok (update_item c n w)" "score w \<le> score (update_item c n w)"
    by simp_all
  from Suc.IH [OF update_item_length [OF lt] step(1)] step(2) show ?case by simp
qed

lemma spawnItem_scoring:
  "scoring_ok w \<Longrightarrow>
   scoring_ok (after (spawnItem w)) \<and> score (after (spawnItem w)) = score w"
  by (simp add: scoring_ok_def spawnItem_def Let_def types_def split: option.split)

lemma update_logic_scoring:
  assumes "scoring_ok w"
  shows "scoring_ok (after (update_logic w)) \<and> score w \<le> score (after (update_logic w))"
proof (cases "canvas w")
  case None
  with assms show ?thesis by (simp add: update_logic_def)
next
  case (Some c)
  from update_items_scoring [OF le_refl assms, of c] Some show ?thesis
    by (simp add: update_logic_def Let_def scoring_ok_def)
qed

lemma update_scoring:
  assumes "scoring_ok w"
  shows "scoring_ok (after (update w)) \<and> score w \<le> score (after (update w))"
proof -
  let ?w2 = "w\<lparr>playerX := playerX w + (targetX w - playerX w) * 0.4,
               spawnTimer := spawnTimer w + 1\<rparr>"
  have w2: "scoring_ok ?w2" "score ?w2 = score w" using assms by (simp_all add: scoring_ok_def)
  let ?w3 = "after (spawnItem ?w2)"
  from spawnItem_scoring [OF w2(1)] w2(2)
  have w3: "scoring_ok (?w3\<lparr>spawnTimer := 0\<rparr>)" "score (?w3\<lparr>spawnTimer := 0\<rparr>) = score w"
    "scoring_ok ?w3" "score ?w3 = score w"
    by (simp_all add: scoring_ok_def)
  from update_logic_scoring [OF w3(1)] update_logic_scoring [OF w2(1)] w2(2) w3 assms
  show ?thesis
    by (cases "spawnItem ?w2") (simp_all add: update_def Let_def)
qed

lemma setPose_scoring:
  "scoring_ok w \<Longrightarrow>
   scoring_ok (after (setPose l w)) \<and> score (after (setPose l w)) = score w"
  by (simp add: scoring_ok_def setPose_def Let_def split: option.split)

lemma exec_scoring: "scoring_ok w \<Longrightarrow> scoring_ok (after (exec c w))"
proof (cases c)
  case Update
  assume "scoring_ok w"
  with Update show ?thesis by (simp add: update_scoring)
next
  case (SetPose l)
  assume "scoring_ok w"
  with SetPose show ?thesis by (simp add: setPose_scoring)
qed (simp_all add: scoring_ok_def init_def start_def draw_def split: option.split)

lemma run_scoring: "scoring_ok w \<Longrightarrow> scoring_ok (run cs w)"
  by (induction cs arbitrary: w) (simp_all add: exec_scoring)

lemma new_scoring: "scoring_ok (GameEngine_new rnd)"
  by (simp add: scoring_ok_def GameEngine_new_def)

lemma run_score_mono:
  "poses_and_updates cs \<Longrightarrow> scoring_ok w \<Longrightarrow> score w \<le> score (run cs w)"
proof (induction cs arbitrary: w rule: poses_and_updates.induct)
  case 1
  then show ?case by simp
next
  case (2 cs)
  from update_scoring [OF "2.prems"(2)] "2.IH" [of "after (update w)"] "2.prems"(1)
  show ?case by simp
next
  case (3 l cs)
  from setPose_scoring [OF "3.prems"(2), of l] "3.IH" [of "after (setPose l w)"] "3.prems"(1)
  show ?case by simp
qed simp_all

subsection \<open>Quiet frames\<close>

text \<open>
  While no item reaches the player or the bottom of the canvas and the spawn timer stays
  within its interval, \<open>update\<close> only moves the items, ages the particles and counts the
  timers: \<open>n\<close> such frames take the engine \<open>w\<close> to \<open>quietly n w\<close>.
\<close>

lemma run_append: "run (xs @ ys) w = run ys (run xs w)"
  by (induction xs arbitrary: w) simp_all

lemma ticks_0 [simp]: "ticks 0 w = w"
  by (simp add: ticks_def)

lemma ticks_Suc: "ticks (Suc n) w = ticks n (after (update w))"
  by (simp add: ticks_def)

lemma ticks_add: "ticks (m + n) w = ticks n (ticks m w)"
  by (simp add: ticks_def replicate_add run_append)

lemma advance_by_0 [simp]: "advance_by 0 item = item"
  by (simp add: advance_by_def)

lemma advance_by_Suc: "advance_by (Suc n) item = advance_by n (advance item)"
  by (simp add: advance_by_def advance_def Let_def algebra_simps)

lemma drifts_Suc:
  assumes "drifts c px (Suc n) item"
  shows "\<not> hits c px (advance item)" "\<not> fell c (advance item)" "drifts c px n (advance item)"
proof -
  from assms have v: "0 \<le> i_speed item" by (simp add: drifts_def)
  then have "0 \<le> real n * i_speed item" by simp
  then have le: "i_y item + i_speed item \<le> i_y item + real (Suc n) * i_speed item"
    by (simp add: algebra_simps)
  from assms le show "\<not> hits c px (advance item)"
    by (auto simp add: drifts_def hits_def advance_def Let_def)
  from assms le show "\<not> fell c (advance item)"
    by (auto simp add: drifts_def fell_def advance_def Let_def)
  from assms show "drifts c px n (advance item)"
    by (simp add: drifts_def advance_def Let_def algebra_simps)
qed

lemma update_item_quiet:
  assumes "i < length (items w)" "\<not> hits c (playerX w) (advance (items w ! i))"
    "\<not> fell c (advance (items w ! i))"
  shows "update_item c i w = w\<lparr>items := (items w)[i := advance (items w ! i)]\<rparr>"
  using assms by (simp add: update_item_def Let_def)

lemma update_items_quiet:
  "n \<le> length (items w) \<Longrightarrow>
   \<forall>it\<in>set (take n (items w)). \<not> hits c (playerX w) (advance it) \<and> \<not> fell c (advance it) \<Longrightarrow>
   update_items c n w = w\<lparr>items := map advance (take n (items w)) @ drop n (items w)\<rparr>"
proof (induction n arbitrary: w)
  case 0
  then show ?case by simp
next
  case (Suc n)
  then have lt: "n < length (items w)" by simp
  let ?xs = "items w"
  let ?w1 = "w\<lparr>items := ?xs[n := advance (?xs ! n)]\<rparr>"
  from Suc.prems(2) lt have here: "\<not> hits c (playerX w) (advance (?xs ! n))"
    "\<not> fell c (advance (?xs ! n))"
    by (simp_all add: take_Suc_conv_app_nth)
  from Suc.prems(2) lt
  have rest: "\<forall>it\<in>set (take n (items ?w1)).
      \<not> hits c (playerX ?w1) (advance it) \<and> \<not> fell c (advance it)"
    by (simp add: take_Suc_conv_app_nth)
  have "update_items c (Suc n) w = update_items c n ?w1"
    using update_item_quiet [OF lt here] by simp
  also have "\<dots> = ?w1\<lparr>items := map advance (take n (items ?w1)) @ drop n (items ?w1)\<rparr>"
    using lt rest by (intro Suc.IH) simp_all
  finally show ?case using lt
    by (simp add: take_Suc_conv_app_nth Cons_nth_drop_Suc upd_conv_take_nth_drop)
qed

lemma update_quiet:
  assumes "state w = PLAYING" "canvas w = Some c" "targetX w = playerX w"
    "spawnTimer w + 1 \<le> spawnInterval w"
    "\<forall>it\<in>set (items w). \<not> hits c (playerX w) (advance it) \<and> \<not> fell c (advance it)"
  shows "after (update w) =
     w\<lparr>spawnTimer := spawnTimer w + 1, items := map advance (items w),
       particles := map Particle_update (particles w),
       shakeTimer := countdown (shakeTimer w),
       flashTimer := countdown (flashTimer w)\<rparr>"
proof -
  let ?w2 = "w\<lparr>spawnTimer := spawnTimer w + 1\<rparr>"
  have "update_items c (length (items ?w2)) ?w2 =
      ?w2\<lparr>items := map advance (take (length (items ?w2)) (items ?w2))
                     @ drop (length (items ?w2)) (items ?w2)\<rparr>"
    using assms(5) by (intro update_items_quiet) simp_all
  then have loop: "update_items c (length (items w)) ?w2 =
      w\<lparr>spawnTimer := spawnTimer w + 1, items := map advance (items w)\<rparr>"
    by simp
  have "update w = update_logic ?w2"
    using assms(1,3,4) by (simp add: update_def Let_def)
  also have "after \<dots> =
     w\<lparr>spawnTimer := spawnTimer w + 1, items := map advance (items w),
       particles := map Particle_update (particles w),
       shakeTimer := countdown (shakeTimer w),
       flashTimer := countdown (flashTimer w)\<rparr>"
    using assms(2)
    by (simp add: update_logic_def Let_def loop countdown_def del: update_items.simps)
  finally show ?thesis .
qed

lemma quiet_ticks:
  "state w = PLAYING \<Longrightarrow> canvas w = Some c \<Longrightarrow> targetX w = playerX w \<Longrightarrow>
   spawnTimer w + int n \<le> spawnInterval w \<Longrightarrow>
   \<forall>it\<in>set (items w). drifts c (playerX w) n it \<Longrightarrow>
   ticks n w =
     w\<lparr>spawnTimer := spawnTimer w + int n, items := map (advance_by n) (items w),
       particles := (map Particle_update ^^ n) (particles w),
       shakeTimer := (countdown ^^ n) (shakeTimer w),
       flashTimer := (countdown ^^ n) (flashTimer w)\<rparr>"
proof (induction n arbitrary: w)
  case 0
  then show ?case by simp
next
  case (Suc n)
  let ?w1 = "w\<lparr>spawnTimer := spawnTimer w + 1, items := map advance (items w),
       particles := map Particle_update (particles w),
       shakeTimer := countdown (shakeTimer w),
       flashTimer := countdown (flashTimer w)\<rparr>"
  from Suc.prems(5)
  have now: "\<forall>it\<in>set (items w). \<not> hits c (playerX w) (advance it) \<and> \<not> fell c (advance it)"
    and later: "\<forall>it\<in>set (items w). drifts c (playerX w) n (advance it)"
    by (auto dest: drifts_Suc)
  from Suc.prems(4) have "spawnTimer w + 1 \<le> spawnInterval w" by simp
  from update_quiet [OF Suc.prems(1-3) this now]
  have step: "after (update w) = ?w1" .
  have "ticks n ?w1 =
     ?w1\<lparr>spawnTimer := spawnTimer ?w1 + int n, items := map (advance_by n) (items ?w1),
       particles := (map Particle_update ^^ n) (particles ?w1),
       shakeTimer := (countdown ^^ n) (shakeTimer ?w1),
       flashTimer := (countdown ^^ n) (flashTimer ?w1)\<rparr>"
    using Suc.prems later by (intro Suc.IH) simp_all
  then show ?case
    by (simp add: ticks_Suc step advance_by_Suc funpow_swap1 comp_def add.assoc)
qed

lemma quiet_frames:
  "state w = PLAYING \<Longrightarrow> canvas w = Some c \<Longrightarrow> targetX w = playerX w \<Longrightarrow>
   spawnTimer w + int n \<le> spawnInterval w \<Longrightarrow>
   \<forall>it\<in>set (items w). drifts c (playerX w) n it \<Longrightarrow>
   ticks n w = quietly n w"
  unfolding quietly_def by (rule quiet_ticks)

subsection \<open>The frames of the session that ends twice\<close>

text \<open>
  The session is followed from one event to the next: an item is spawned in frames 46, 92,
  138, 184, 230, 276 and 322, the first bomb is hit in frame 274, the second in frame 320,
  and the third and the fourth both in frame 366. Between the events the frames are quiet.
\<close>

lemma explode_drawn: "k \<le> snd (explode x y color rnd k n ps)"
proof (induction ps arbitrary: k n)
  case Nil
  show ?case by simp
next
  case (Cons p ps)
  from Cons [of "k + 3" "n + 1"] Cons [of k n] show ?case
    by (simp add: Let_def split_beta)
qed

lemma handleCollision_drawn: "n \<le> drawn w \<Longrightarrow> n \<le> drawn (handleCollision item w)"
proof -
  assume n: "n \<le> drawn w"
  have "drawn v \<le> drawn (spawnExplosion x y color v)" for x y color v
    using explode_drawn [of "drawn v" x y color "rand v" 0 "particles v"]
    by (simp add: spawnExplosion_def split_beta)
  from this [THEN order_trans [rotated]] n show ?thesis
    by (simp add: handleCollision_def Let_def resetCombo_def notifyUI_def gameOver_def)
qed

lemma draws_late: "12 \<le> n \<Longrightarrow> draws n = 0"
  by (simp add: draws_def)

lemma frame_0: "frame 0 = session"
  by (simp add: frame_def)

lemma frame_step: "frame (m + 1) = after (update (ticks m session))"
  using ticks_add [of m 1 session] by (simp add: frame_def ticks_Suc)

lemmas frame_eval =
  quietly_def update_def update_logic_def spawnItem_def update_item_def hits_def fell_def
  advance_def splice1_def Let_def staged_def rigged_def c1600_def types_def item_of_def
  centre_bomb_def left_bomb_def advance_by_def handleCollision_life handleCollision_calls
  handleCollision_score handleCollision_combo handleCollision_state handleCollision_baseSpeed
  handleCollision_drawn

lemma session_staged: "staged (frame 0) PLAYING 3 0 [] [] \<and> drawn (frame 0) = 0"
  by (simp add: frame_0 staged_def session_def rigged_def init_def start_def notifyUI_def
        GameEngine_new_def c1600_def)

lemma frame_46:
  "staged (frame 46) PLAYING 3 0 []
     [centre_bomb (- 54) 6 0.05]
   \<and> drawn (frame 46) = 3"
proof -
  note prev = session_staged [unfolded staged_def rigged_def]
  from prev have "ticks 45 (frame 0) = quietly 45 (frame 0)"
    by (intro quiet_frames [where c = c1600])
       (simp_all add: drifts_def c1600_def centre_bomb_def left_bomb_def item_of_def)
  then have step: "frame 46 = after (update (quietly 45 (frame 0)))"
    using frame_step [of 45] ticks_add [of 0 45 session]
    by (simp add: frame_def)
  from prev show ?thesis
    by (simp add: step frame_eval draws_def)
qed

lemma frame_92:
  "staged (frame 92) PLAYING 3 0 []
     [centre_bomb 222 6 2.35,
      centre_bomb (- 54) 6 0.05]
   \<and> drawn (frame 92) = 6"
proof -
  note prev = frame_46 [unfolded staged_def rigged_def]
  from prev have "ticks 45 (frame 46) = quietly 45 (frame 46)"
    by (intro quiet_frames [where c = c1600])
       (simp_all add: drifts_def c1600_def centre_bomb_def left_bomb_def item_of_def)
  then have step: "frame 92 = after (update (quietly 45 (frame 46)))"
    using frame_step [of 91] ticks_add [of 46 45 session]
    by (simp add: frame_def)
  from prev show ?thesis
    by (simp add: step frame_eval draws_def)
qed

lemma frame_138:
  "staged (frame 138) PLAYING 3 0 []
     [centre_bomb 498 6 4.65,
      centre_bomb 222 6 2.35,
      centre_bomb (- 54) 6 0.05]
   \<and> drawn (frame 138) = 9"
proof -
  note prev = frame_92 [unfolded staged_def rigged_def]
  from prev have "ticks 45 (frame 92) = quietly 45 (frame 92)"
    by (intro quiet_frames [where c = c1600])
       (simp_all add: drifts_def c1600_def centre_bomb_def left_bomb_def item_of_def)
  then have step: "frame 138 = after (update (quietly 45 (frame 92)))"
    using frame_step [of 137] ticks_add [of 92 45 session]
    by (simp add: frame_def)
  from prev show ?thesis
    by (simp add: step frame_eval draws_def)
qed

lemma frame_184:
  "staged (frame 184) PLAYING 3 0 []
     [centre_bomb 774 6 6.95,
      centre_bomb 498 6 4.65,
      centre_bomb 222 6 2.35,
      centre_bomb (- 52.5) 7.5 0.05]
   \<and> drawn (frame 184) = 12"
proof -
  note prev = frame_138 [unfolded staged_def rigged_def]
  from prev have "ticks 45 (frame 138) = quietly 45 (frame 138)"
    by (intro quiet_frames [where c = c1600])
       (simp_all add: drifts_def c1600_def centre_bomb_def left_bomb_def item_of_def)
  then have step: "frame 184 = after (update (quietly 45 (frame 138)))"
    using frame_step [of 183] ticks_add [of 138 45 session]
    by (simp add: frame_def)
  from prev show ?thesis
    by (simp add: step frame_eval draws_def)
qed

lemma frame_230:
  "staged (frame 230) PLAYING 3 0 []
     [centre_bomb 1050 6 9.25,
      centre_bomb 774 6 6.95,
      centre_bomb 498 6 4.65,
      centre_bomb 292.5 7.5 2.35,
      left_bomb (- 54) 6 0.05]
   \<and> drawn (frame 230) = 15"
proof -
  note prev = frame_184 [unfolded staged_def rigged_def]
  from prev have "ticks 45 (frame 184) = quietly 45 (frame 184)"
    by (intro quiet_frames [where c = c1600])
       (simp_all add: drifts_def c1600_def centre_bomb_def left_bomb_def item_of_def)
  then have step: "frame 230 = after (update (quietly 45 (frame 184)))"
    using frame_step [of 229] ticks_add [of 184 45 session]
    by (simp add: frame_def)
  from prev show ?thesis
    by (simp add: step frame_eval draws_def)
qed

lemma frame_274:
  "staged (frame 274) PLAYING 2 44 []
     [centre_bomb 1038 6 9.15,
      centre_bomb 762 6 6.85,
      centre_bomb 622.5 7.5 4.55,
      left_bomb 210 6 2.25]
   \<and> 15 \<le> drawn (frame 274)"
proof -
  note prev = frame_230 [unfolded staged_def rigged_def]
  from prev have "ticks 43 (frame 230) = quietly 43 (frame 230)"
    by (intro quiet_frames [where c = c1600])
       (simp_all add: drifts_def c1600_def centre_bomb_def left_bomb_def item_of_def)
  then have step: "frame 274 = after (update (quietly 43 (frame 230)))"
    using frame_step [of 273] ticks_add [of 230 43 session]
    by (simp add: frame_def)
  from prev show ?thesis
    by (simp add: step frame_eval draws_def)
qed

lemma frame_276:
  "staged (frame 276) PLAYING 2 0 []
     [centre_bomb 1050 6 9.25,
      centre_bomb 774 6 6.95,
      centre_bomb 637.5 7.5 4.65,
      left_bomb 222 6 2.35,
      left_bomb (- 54) 6 0.05]
   \<and> 15 \<le> drawn (frame 276)"
proof -
  note prev = frame_274 [unfolded staged_def rigged_def]
  from prev have "ticks 1 (frame 274) = quietly 1 (frame 274)"
    by (intro quiet_frames [where c = c1600])
       (simp_all add: drifts_def c1600_def centre_bomb_def left_bomb_def item_of_def)
  then have step: "frame 276 = after (update (quietly 1 (frame 274)))"
    using frame_step [of 275] ticks_add [of 274 1 session]
    by (simp add: frame_def)
  from prev show ?thesis
    by (simp add: step frame_eval draws_late)
qed

lemma frame_320:
  "staged (frame 320) PLAYING 1 44 []
     [centre_bomb 1038 6 9.15,
      centre_bomb 967.5 7.5 6.85,
      left_bomb 486 6 4.55,
      left_bomb 210 6 2.25]
   \<and> 15 \<le> drawn (frame 320)"
proof -
  note prev = frame_276 [unfolded staged_def rigged_def]
  from prev have "ticks 43 (frame 276) = quietly 43 (frame 276)"
    by (intro quiet_frames [where c = c1600])
       (simp_all add: drifts_def c1600_def centre_bomb_def left_bomb_def item_of_def)
  then have step: "frame 320 = after (update (quietly 43 (frame 276)))"
    using frame_step [of 319] ticks_add [of 276 43 session]
    by (simp add: frame_def)
  from prev show ?thesis
    by (simp add: step frame_eval draws_late)
qed

lemma frame_322:
  "staged (frame 322) PLAYING 1 0 []
     [centre_bomb 1050 6 9.25,
      centre_bomb 982.5 7.5 6.95,
      left_bomb 498 6 4.65,
      left_bomb 222 6 2.35,
      left_bomb (- 54) 6 0.05]
   \<and> 15 \<le> drawn (frame 322)"
proof -
  note prev = frame_320 [unfolded staged_def rigged_def]
  from prev have "ticks 1 (frame 320) = quietly 1 (frame 320)"
    by (intro quiet_frames [where c = c1600])
       (simp_all add: drifts_def c1600_def centre_bomb_def left_bomb_def item_of_def)
  then have step: "frame 322 = after (update (quietly 1 (frame 320)))"
    using frame_step [of 321] ticks_add [of 320 1 session]
    by (simp add: frame_def)
  from prev show ?thesis
    by (simp add: step frame_eval draws_late)
qed

lemma frame_366:
  "staged (frame 366) GAME_OVER (- 1) 44 [GameEnd 0 1, GameEnd 0 1]
     [left_bomb 762 6 6.85,
      left_bomb 486 6 4.55,
      left_bomb 210 6 2.25]
   \<and> 15 \<le> drawn (frame 366)"
proof -
  note prev = frame_322 [unfolded staged_def rigged_def]
  from prev have "ticks 43 (frame 322) = quietly 43 (frame 322)"
    by (intro quiet_frames [where c = c1600])
       (simp_all add: drifts_def c1600_def centre_bomb_def left_bomb_def item_of_def)
  then have step: "frame 366 = after (update (quietly 43 (frame 322)))"
    using frame_step [of 365] ticks_add [of 322 43 session]
    by (simp add: frame_def)
  from prev show ?thesis
    by (simp add: step frame_eval draws_late)
qed

lemma frame_365:
  "staged (frame 365) PLAYING 1 43 []
     [centre_bomb 1308 6 11.4,
      centre_bomb 1305 7.5 9.1,
      left_bomb 756 6 6.8,
      left_bomb 480 6 4.5,
      left_bomb 204 6 2.2]
   \<and> frame 366 = after (update (frame 365))"
proof -
  note prev = frame_322 [unfolded staged_def rigged_def]
  from prev have "ticks 43 (frame 322) = quietly 43 (frame 322)"
    by (intro quiet_frames [where c = c1600])
       (simp_all add: drifts_def c1600_def centre_bomb_def left_bomb_def item_of_def)
  then have now: "frame 365 = quietly 43 (frame 322)"
    using ticks_add [of 322 43 session] by (simp add: frame_def)
  from frame_step [of 365] have "frame 366 = after (update (frame 365))"
    by (simp add: frame_def)
  with prev show ?thesis
    by (simp add: now frame_eval)
qed

section \<open>The claims\<close>

subsection \<open>C1: life and the end of the game\<close>

text \<open>
  C1 does not hold of \<open>update\<close>. In the session defined above, frame 365 is reached by
  method calls only; the engine is playing with one life left, and the two bombs at the
  head of the item list are both one move away from the player's row. The next \<open>update\<close>
  handles both collisions: life ends at \<open>-1\<close> and the game-end listener is called twice.
\<close>

theorem double_hit_ends_twice:
  "frame 365 = run (replicate 365 Update) session
   \<and> state (frame 365) = PLAYING \<and> life (frame 365) = 1 \<and> calls (frame 365) = []
   \<and> playerX (frame 365) = 150 \<and> canvas (frame 365) = Some c1600
   \<and> take 2 (items (frame 365)) = [centre_bomb 1308 6 11.4, centre_bomb 1305 7.5 9.1]
   \<and> returned (update (frame 365))
   \<and> life (after (update (frame 365))) = - 1
   \<and> state (after (update (frame 365))) = GAME_OVER
   \<and> calls (after (update (frame 365))) = [GameEnd 0 1, GameEnd 0 1]"
proof -
  from frame_365 have before: "staged (frame 365) PLAYING 1 43 []
     [centre_bomb 1308 6 11.4, centre_bomb 1305 7.5 9.1, left_bomb 756 6 6.8,
      left_bomb 480 6 4.5, left_bomb 204 6 2.2]"
    and step: "after (update (frame 365)) = frame 366" by simp_all
  from before have "returned (update (frame 365))"
    by (simp add: frame_eval)
  with before frame_366
  have "state (frame 365) = PLAYING \<and> life (frame 365) = 1 \<and> calls (frame 365) = []
   \<and> playerX (frame 365) = 150 \<and> canvas (frame 365) = Some c1600
   \<and> take 2 (items (frame 365)) = [centre_bomb 1308 6 11.4, centre_bomb 1305 7.5 9.1]
   \<and> returned (update (frame 365))
   \<and> life (after (update (frame 365))) = - 1
   \<and> state (after (update (frame 365))) = GAME_OVER
   \<and> calls (after (update (frame 365))) = [GameEnd 0 1, GameEnd 0 1]"
    by (simp add: step staged_def rigged_def)
  moreover have "frame 365 = run (replicate 365 Update) session"
    by (simp add: frame_def ticks_def)
  ultimately show ?thesis by (rule conjI [rotated])
qed

subsection \<open>C2: size of a particle burst\<close>

text \<open>
  C2 as stated fails: \<open>spawnExplosion\<close> takes no particle count, so a burst of 95 cannot be
  requested. On the empty pool of a new engine a burst does not activate
  \<open>min 95 (100 - 0)\<close> particles.
\<close>

theorem burst_of_95_counterexample:
  "active_count (particles (spawnExplosion 0 0 ''#555'' (GameEngine_new (\<lambda>n. 0))))
     \<noteq> min 95 (100 - active_count (particles (GameEngine_new (\<lambda>n. 0))))"
  by (simp add: spawnExplosion_active new_pool)

text \<open>
  C2, amended: every call of \<open>spawnExplosion\<close> activates exactly \<open>min 15 (C - a)\<close>
  particles, where \<open>a\<close> slots of the pool of \<open>C\<close> slots were active before the call, and
  the pool keeps its \<open>C\<close> slots. The burst size 15 is fixed in the method.
\<close>

theorem spawnExplosion_activates:
  "active_count (particles (spawnExplosion x y color w)) =
     active_count (particles w) + min 15 (length (particles w) - active_count (particles w))
   \<and> length (particles (spawnExplosion x y color w)) = length (particles w)"
  by (simp add: spawnExplosion_active spawnExplosion_length)

subsection \<open>C3: pose labels\<close>

text \<open>
  C3 does not hold of the pooled engine's \<open>setPose\<close>: it compares the label with
  \<open>Left\<close>, \<open>Center\<close> and \<open>Right\<close> exactly, so every label of the scenario's stream is
  ignored and the target stays at the centre (150), where the claim expects 50, 150, 50,
  50 and 250 on the canvas of width 300.
\<close>

theorem setPose_is_case_sensitive:
  "after (setPose ''left'' playing) = playing
   \<and> targetX playing = 150
   \<and> width demo_canvas / 3 * (0 + 0.5) = 50
   \<and> target_trace label_stream playing = [150, 150, 150, 150, 150]"
  by (simp add: setPose_def playing_fields demo_canvas_def label_stream_def)

subsection \<open>C4: the difficulty ramp\<close>

text \<open>
  C4 as stated fails in both directions. The first apple of a session takes the score
  from 0 to 100, which crosses no multiple of 1000, and \<open>baseSpeed\<close> is incremented all
  the same. After nine apples the score is 900; an orange then scores 300 twice over and
  takes it to 1500, across 1000, and \<open>baseSpeed\<close> is not incremented.
\<close>

theorem ramp_without_crossing_counterexample:
  "score playing = 0 \<and> score (handleCollision apple playing) = 100
   \<and> baseSpeed (handleCollision apple playing) = baseSpeed playing + 0.05
   \<and> score (collisions (replicate 9 apple) playing) = 900
   \<and> score (handleCollision orange (collisions (replicate 9 apple) playing)) = 1500
   \<and> baseSpeed (handleCollision orange (collisions (replicate 9 apple) playing))
       = baseSpeed (collisions (replicate 9 apple) playing)"
  by (simp add: handleCollision_baseSpeed handleCollision_score playing_fields item_fields
        nine_apples signed_modulo_int_def)

text \<open>
  C4, amended: a collision increments \<open>baseSpeed\<close> by 0.05 exactly when the item is not a
  bomb and the score after the hit leaves a remainder below 200 modulo 1000; resetting
  the combo and a pose change leave \<open>baseSpeed\<close> as it is.
\<close>

theorem baseSpeed_ramp:
  "baseSpeed (handleCollision item w) =
     (if i_type item \<noteq> ''bomb'' \<and> score (handleCollision item w) smod 1000 < 200
      then baseSpeed w + 0.05 else baseSpeed w)
   \<and> baseSpeed (resetCombo w) = baseSpeed w
   \<and> baseSpeed (after (setPose l w)) = baseSpeed w"
  by (simp add: handleCollision_baseSpeed [symmetric] setPose_def Let_def split: option.split)

subsection \<open>C5: the combo multiplier\<close>

text \<open>
  C5: starting from a combo of 0, the \<open>k\<close>-th of \<open>k\<close> consecutive collisions with items
  that are not bombs adds the item's score times \<open>1 + k div 10\<close>, and the combo is then
  \<open>k\<close>. A collision with a bomb sets the combo to 0, and so does an iteration of the item
  loop on an item that has fallen below the canvas without colliding.
\<close>

theorem combo_multiplier:
  assumes "combo w = 0"
    and "\<forall>it\<in>set its. i_type it \<noteq> ''bomb''"
    and "i_type item \<noteq> ''bomb''"
    and "k = length its + 1"
  shows "score (collisions (its @ [item]) w) - score (collisions its w)
           = i_score item * (1 + int k div 10)
         \<and> combo (collisions (its @ [item]) w) = int k
         \<and> (i_type b = ''bomb'' \<longrightarrow> combo (handleCollision b v) = 0)
         \<and> (i < length (items v) \<and> \<not> hits c (playerX v) (advance (items v ! i))
              \<and> fell c (advance (items v ! i))
            \<longrightarrow> combo (update_item c i v) = 0)"
proof -
  have "combo (collisions its w) = int (length its)"
    using assms(1,2) by (simp add: collisions_combo)
  with assms(3,4) show ?thesis
    using update_item_miss [of i v c]
    by (simp add: collisions_append handleCollision_score handleCollision_combo add.commute)
qed

text \<open>
  Ten apples in a row from the start of a session: the tenth scores double. A bomb, or an
  apple that leaves the field, ends a combo of 7.
\<close>

theorem combo_multiplier_witness:
  "score (collisions (replicate 9 apple @ [apple]) playing)
     - score (collisions (replicate 9 apple) playing) = 200
   \<and> combo (collisions (replicate 9 apple @ [apple]) playing) = 10
   \<and> combo (handleCollision bomb slipping) = 0
   \<and> combo slipping = 7 \<and> combo (update_item demo_canvas 0 slipping) = 0"
  using combo_multiplier [of playing "replicate 9 apple" apple 10 bomb slipping 0 demo_canvas]
  by (simp add: playing_fields item_fields slipping_fields hits_def fell_def advance_def
        item_of_def demo_canvas_def Let_def)

subsection \<open>C6: the score never decreases while playing\<close>

text \<open>
  C6: every engine reached from a new one by calls of its methods has a combo that is not
  negative and only items whose score is not negative; from any such engine, no sequence
  of \<open>update\<close> and \<open>setPose\<close> calls decreases the score.
\<close>

theorem score_never_decreases:
  "scoring_ok (run pre (GameEngine_new rnd))
   \<and> (scoring_ok w \<and> poses_and_updates cs
      \<longrightarrow> score w \<le> score (run cs w) \<and> scoring_ok (run cs w))"
  by (simp add: run_scoring new_scoring run_score_mono)

text \<open>
  A pose change followed by a frame in which the player, on the way to the right lane,
  catches an apple: the score goes from 0 to 100.
\<close>

theorem score_never_decreases_witness:
  "score catching = 0
   \<and> score catching \<le> score (run [SetPose ''Right'', Update] catching)
   \<and> score (run [SetPose ''Right'', Update] catching) = 100"
proof -
  have ok: "scoring_ok catching"
    by (simp add: scoring_ok_def catching_fields item_fields)
  have "score (run [SetPose ''Right'', Update] catching) = 100"
    by (simp add: setPose_def update_def update_logic_def Let_def catching_fields
          update_item_def hits_def fell_def advance_def apple_def item_of_def types_def
          demo_canvas_def splice1_def handleCollision_score)
  with ok score_never_decreases [of "[]" "\<lambda>n. 0" catching "[SetPose ''Right'', Update]"]
  show ?thesis by (simp add: catching_fields)
qed

subsection \<open>C7: the particle pool has 100 slots\<close>

text \<open>
  C7: a new engine has a pool of 100 particles; no method changes the length of the pool,
  so after any sequence of calls the pool still has 100 slots and at most 100 of them
  are active.
\<close>

theorem pool_size_fixed:
  "length (particles (GameEngine_new rnd)) = 100
   \<and> length (particles (after (exec c w))) = length (particles w)
   \<and> length (particles (run cs (GameEngine_new rnd))) = 100
   \<and> active_count (particles (run cs (GameEngine_new rnd))) \<le> 100"
  using active_count_le [of "particles (run cs (GameEngine_new rnd))"]
  by (simp add: exec_pool run_pool new_pool)

subsection \<open>C8: \<open>start\<close> is idempotent\<close>

text \<open>
  C8: calling \<open>start\<close> twice leaves the engine's fields as one call leaves them; the only
  difference is the second notification. Each call resets score, life, level, combo, the
  item list, \<open>baseSpeed\<close> and every particle's \<open>active\<close> flag, enters \<open>PLAYING\<close> and
  calls the score listener, when one is installed, once with the reset values.
\<close>

theorem start_idempotent:
  "GameEngine.truncate (start (start w)) = GameEngine.truncate (start w)
   \<and> start (start w) =
       (start w)\<lparr>calls := calls (start w)
                    @ (if onScoreChange w then [ScoreChange 0 3 1 0] else [])\<rparr>
   \<and> state (start w) = PLAYING \<and> score (start w) = 0 \<and> life (start w) = 3
   \<and> level (start w) = 1 \<and> combo (start w) = 0 \<and> items (start w) = []
   \<and> baseSpeed (start w) = 6 \<and> active_count (particles (start w)) = 0
   \<and> length (particles (start w)) = length (particles w)
   \<and> calls (start w) = calls w @ (if onScoreChange w then [ScoreChange 0 3 1 0] else [])"
  by (simp add: start_def notifyUI_def GameEngine.truncate_def active_count_def filter_map
        comp_def)

subsection \<open>C9: a missed item\<close>

text \<open>
  C9: when the loop of \<open>update\<close> reaches an item that, once moved, does not collide with the
  player and lies below the canvas, that iteration removes the item from the list and sets
  the combo to 0, whatever it was. No item below the canvas is left in the list when
  \<open>update\<close> returns.
\<close>

theorem missed_item_removed:
  "(i < length (items w) \<and> \<not> hits c (playerX w) (advance (items w ! i))
      \<and> fell c (advance (items w ! i))
    \<longrightarrow> items (update_item c i w) = splice1 i (items w) \<and> combo (update_item c i w) = 0)
   \<and> (state w = PLAYING \<and> canvas w = Some c
    \<longrightarrow> returned (update w) \<and> (\<forall>it\<in>set (items (after (update w))). \<not> fell c it))"
  using update_item_miss [of i w c] update_keeps_no_fallen [of w c]
  by (simp add: list_all_iff)

text \<open>
  The scenario of the specification: a combo of 7 and one apple, in another lane than the
  player, that the next move takes below the canvas of height 400.
\<close>

theorem missed_item_removed_witness:
  "items (update_item demo_canvas 0 slipping) = []
   \<and> combo slipping = 7 \<and> combo (update_item demo_canvas 0 slipping) = 0
   \<and> returned (update slipping)
   \<and> items (after (update slipping)) = [] \<and> combo (after (update slipping)) = 0"
proof -
  have "items (after (update slipping)) = [] \<and> combo (after (update slipping)) = 0"
    by (simp add: update_def update_logic_def Let_def slipping_fields update_item_def hits_def
          fell_def advance_def item_of_def types_def demo_canvas_def splice1_def)
  with missed_item_removed [of 0 slipping demo_canvas] show ?thesis
    by (simp add: slipping_fields hits_def fell_def advance_def item_of_def demo_canvas_def
          splice1_def Let_def)
qed

subsection \<open>C10: the level\<close>

text \<open>
  C10: after any sequence of calls on a new engine the level is 1, and every call made to
  the score listener or to the game-end listener has reported level 1.
\<close>

theorem level_is_always_one:
  "level (run cs (GameEngine_new rnd)) = 1
   \<and> list_all (\<lambda>e. event_level e = 1) (calls (run cs (GameEngine_new rnd)))"
  using level_one_run [OF level_one_new, of cs rnd]
  by (simp add: level_one_def)

end
